theory Spec2Isabelle
  imports Complex_Main "HOL-Library.Sublist"
begin

section \<open>The recipe store: data model\<close>

text \<open>
  The store of \<^verbatim>\<open>stores/recipeStore\<close> (a Zustand store wrapped in the keepsync
  middleware) and its two selectors. Every action is one call of \<^verbatim>\<open>set\<close>, which
  merges the fields it is given into the current state; the model is a function from the
  state to the next state. The middleware only persists and broadcasts the state and is not
  modelled.

  Conventions of the model:
  \<^item> a JavaScript \<^verbatim>\<open>number\<close> is a \<open>real\<close>; the store never computes with one;
  \<^item> a \<^verbatim>\<open>Date\<close> is its time value, an \<open>int\<close> of milliseconds;
  \<^item> a string is a \<open>string\<close>, \<^verbatim>\<open>===\<close> on strings is equality;
  \<^item> an optional field (\<^verbatim>\<open>preparation?\<close>) is an \<open>option\<close>, \<open>None\<close> when the
    property is absent or \<^verbatim>\<open>undefined\<close>; \<^verbatim>\<open>string | null\<close> is an \<open>option\<close> too;
  \<^item> the two readings of the environment, \<^verbatim>\<open>new Date()\<close> and
    \<^verbatim>\<open>crypto.randomUUID()\<close>, are parameters \<open>now\<close> and \<open>uuid\<close> of the action
    that makes them. An action that reads the clock inside \<^verbatim>\<open>map\<close> reads it once for
    each matching recipe of the same synchronous call; the model uses the one reading
    \<open>now\<close> of the call for all of them.
\<close>

type_synonym number = real
type_synonym date = int

record ingredient =
  ingredient_id :: string
  name :: string
  amount :: number
  unit :: string
  preparation :: "string option"

record instruction =
  instruction_id :: string
  stepNumber :: number
  instruction_text :: string

record nutrition =
  calories :: number
  protein :: number
  carbs :: number
  fat :: number
  sugar :: "number option"
  sodium :: "number option"
  fiber :: "number option"

datatype difficulty = Easy | Medium | Hard

record recipe =
  recipe_id :: string
  title :: string
  description :: string
  ingredients :: "ingredient list"
  instructions :: "instruction list"
  prepTime :: number
  cookTime :: number
  servings :: number
  category :: "string list"
  cuisine :: string
  difficulty :: difficulty
  nutrition :: "nutrition option"
  imageUrl :: "string option"
  author :: string
  dateCreated :: date
  dateModified :: date
  recipe_notes :: "string option"
  isFavorite :: bool

text \<open>
  \<^verbatim>\<open>RecipeData & RecipeUIState\<close>: the data part of the store (the actions are the
  functions below).
\<close>

record recipe_store =
  recipes :: "recipe list"
  selectedRecipeId :: "string option"
  isEditing :: bool
  isCreating :: bool
  searchTerm :: string
  filterCategory :: "string option"
  isLoading :: bool

subsection \<open>Argument types\<close>

text \<open>
  \<^verbatim>\<open>Omit<Recipe, "id" | "dateCreated" | "dateModified">\<close>,
  \<^verbatim>\<open>Omit<Ingredient, "id">\<close> and \<^verbatim>\<open>Omit<Instruction, "id">\<close>. The type does not
  ask for the omitted properties, but a value that has them is assignable to it (a whole
  \<^verbatim>\<open>Recipe\<close> is), and the spread of the argument copies them. They are optional
  fields here: \<open>None\<close> when the argument omits them, as the callers of the repository do.
\<close>

record recipe_data =
  d_id :: "string option"
  d_dateCreated :: "date option"
  d_dateModified :: "date option"
  d_title :: string
  d_description :: string
  d_ingredients :: "ingredient list"
  d_instructions :: "instruction list"
  d_prepTime :: number
  d_cookTime :: number
  d_servings :: number
  d_category :: "string list"
  d_cuisine :: string
  d_difficulty :: difficulty
  d_nutrition :: "nutrition option"
  d_imageUrl :: "string option"
  d_author :: string
  d_notes :: "string option"
  d_isFavorite :: bool

record ingredient_data =
  di_id :: "string option"
  di_name :: string
  di_amount :: number
  di_unit :: string
  di_preparation :: "string option"

record instruction_data =
  dn_id :: "string option"
  dn_stepNumber :: number
  dn_text :: string

text \<open>
  \<^verbatim>\<open>Partial<Recipe>\<close>, \<^verbatim>\<open>Partial<Ingredient>\<close>, \<^verbatim>\<open>Partial<Instruction>\<close>: every
  property may be absent (\<open>None\<close>) or present with a value of the field's type
  (\<open>Some v\<close>). For an optional field the value itself may be \<^verbatim>\<open>undefined\<close>, so a
  present property is \<open>Some None\<close> or \<open>Some (Some v)\<close>.
\<close>

record recipe_partial =
  p_id :: "string option"
  p_title :: "string option"
  p_description :: "string option"
  p_ingredients :: "ingredient list option"
  p_instructions :: "instruction list option"
  p_prepTime :: "number option"
  p_cookTime :: "number option"
  p_servings :: "number option"
  p_category :: "string list option"
  p_cuisine :: "string option"
  p_difficulty :: "difficulty option"
  p_nutrition :: "nutrition option option"
  p_imageUrl :: "string option option"
  p_author :: "string option"
  p_dateCreated :: "date option"
  p_dateModified :: "date option"
  p_notes :: "string option option"
  p_isFavorite :: "bool option"

record ingredient_partial =
  pi_id :: "string option"
  pi_name :: "string option"
  pi_amount :: "number option"
  pi_unit :: "string option"
  pi_preparation :: "string option option"

record instruction_partial =
  pn_id :: "string option"
  pn_stepNumber :: "number option"
  pn_text :: "string option"

section \<open>Object spread\<close>

text \<open>
  In \<^verbatim>\<open>{ ...a, ...b }\<close> a property of \<^verbatim>\<open>b\<close> replaces the one of \<^verbatim>\<open>a\<close>, and a
  property absent from \<^verbatim>\<open>b\<close> keeps the value of \<^verbatim>\<open>a\<close>.
\<close>

fun spread :: "'a \<Rightarrow> 'a option \<Rightarrow> 'a" where
  "spread old None = old"
| "spread old (Some v) = v"

text \<open>\<^verbatim>\<open>{ ...recipe, ...recipeData }\<close>\<close>

definition spread_recipe :: "recipe \<Rightarrow> recipe_partial \<Rightarrow> recipe" where
  "spread_recipe r p =
     \<lparr> recipe_id = spread (recipe_id r) (p_id p),
       title = spread (title r) (p_title p),
       description = spread (description r) (p_description p),
       ingredients = spread (ingredients r) (p_ingredients p),
       instructions = spread (instructions r) (p_instructions p),
       prepTime = spread (prepTime r) (p_prepTime p),
       cookTime = spread (cookTime r) (p_cookTime p),
       servings = spread (servings r) (p_servings p),
       category = spread (category r) (p_category p),
       cuisine = spread (cuisine r) (p_cuisine p),
       difficulty = spread (difficulty r) (p_difficulty p),
       nutrition = spread (nutrition r) (p_nutrition p),
       imageUrl = spread (imageUrl r) (p_imageUrl p),
       author = spread (author r) (p_author p),
       dateCreated = spread (dateCreated r) (p_dateCreated p),
       dateModified = spread (dateModified r) (p_dateModified p),
       recipe_notes = spread (recipe_notes r) (p_notes p),
       isFavorite = spread (isFavorite r) (p_isFavorite p) \<rparr>"

text \<open>\<^verbatim>\<open>{ ...ingredient, ...data }\<close>\<close>

definition spread_ingredient :: "ingredient \<Rightarrow> ingredient_partial \<Rightarrow> ingredient" where
  "spread_ingredient g p =
     \<lparr> ingredient_id = spread (ingredient_id g) (pi_id p),
       name = spread (name g) (pi_name p),
       amount = spread (amount g) (pi_amount p),
       unit = spread (unit g) (pi_unit p),
       preparation = spread (preparation g) (pi_preparation p) \<rparr>"

text \<open>\<^verbatim>\<open>{ ...instruction, ...data }\<close>\<close>

definition spread_instruction :: "instruction \<Rightarrow> instruction_partial \<Rightarrow> instruction" where
  "spread_instruction n p =
     \<lparr> instruction_id = spread (instruction_id n) (pn_id p),
       stepNumber = spread (stepNumber n) (pn_stepNumber p),
       instruction_text = spread (instruction_text n) (pn_text p) \<rparr>"

section \<open>The store\<close>

text \<open>The initial data and UI state.\<close>

definition initial_store :: recipe_store where
  "initial_store =
     \<lparr> recipes = [], selectedRecipeId = None, isEditing = False, isCreating = False,
       searchTerm = [], filterCategory = None, isLoading = False \<rparr>"

subsection \<open>Recipe CRUD operations\<close>

text \<open>
  \<^verbatim>\<open>{ id: crypto.randomUUID(), dateCreated: now, dateModified: now, ...recipeData }\<close>:
  the argument is spread after the three generated properties, so an \<^verbatim>\<open>id\<close>,
  \<^verbatim>\<open>dateCreated\<close> or \<^verbatim>\<open>dateModified\<close> that it carries replaces the generated one.
\<close>

definition newRecipe :: "date \<Rightarrow> string \<Rightarrow> recipe_data \<Rightarrow> recipe" where
  "newRecipe now uuid d =
     \<lparr> recipe_id = spread uuid (d_id d),
       title = d_title d,
       description = d_description d,
       ingredients = d_ingredients d,
       instructions = d_instructions d,
       prepTime = d_prepTime d,
       cookTime = d_cookTime d,
       servings = d_servings d,
       category = d_category d,
       cuisine = d_cuisine d,
       difficulty = d_difficulty d,
       nutrition = d_nutrition d,
       imageUrl = d_imageUrl d,
       author = d_author d,
       dateCreated = spread now (d_dateCreated d),
       dateModified = spread now (d_dateModified d),
       recipe_notes = d_notes d,
       isFavorite = d_isFavorite d \<rparr>"

definition createRecipe :: "date \<Rightarrow> string \<Rightarrow> recipe_data \<Rightarrow> recipe_store \<Rightarrow> recipe_store" where
  "createRecipe now uuid d s =
     s\<lparr> recipes := recipes s @ [newRecipe now uuid d],
        selectedRecipeId := Some (recipe_id (newRecipe now uuid d)),
        isCreating := False \<rparr>"

definition updateRecipe :: "date \<Rightarrow> string \<Rightarrow> recipe_partial \<Rightarrow> recipe_store \<Rightarrow> recipe_store" where
  "updateRecipe now i p s =
     s\<lparr> recipes := map (\<lambda>r. if recipe_id r = i
                              then (spread_recipe r p)\<lparr> dateModified := now \<rparr>
                              else r) (recipes s) \<rparr>"

definition deleteRecipe :: "string \<Rightarrow> recipe_store \<Rightarrow> recipe_store" where
  "deleteRecipe i s =
     s\<lparr> recipes := filter (\<lambda>r. recipe_id r \<noteq> i) (recipes s),
        selectedRecipeId := (if selectedRecipeId s = Some i then None else selectedRecipeId s) \<rparr>"

subsection \<open>Ingredient management\<close>

text \<open>
  \<^verbatim>\<open>{ id: crypto.randomUUID(), ...ingredientData }\<close>: an \<^verbatim>\<open>id\<close> carried by the
  argument replaces the generated one.
\<close>

definition newIngredient :: "string \<Rightarrow> ingredient_data \<Rightarrow> ingredient" where
  "newIngredient uuid d =
     \<lparr> ingredient_id = spread uuid (di_id d), name = di_name d, amount = di_amount d, unit = di_unit d,
       preparation = di_preparation d \<rparr>"

definition addIngredient ::
  "date \<Rightarrow> string \<Rightarrow> string \<Rightarrow> ingredient_data \<Rightarrow> recipe_store \<Rightarrow> recipe_store" where
  "addIngredient now uuid recipeId d s =
     s\<lparr> recipes := map (\<lambda>r. if recipe_id r = recipeId
                              then r\<lparr> ingredients := ingredients r @ [newIngredient uuid d],
                                      dateModified := now \<rparr>
                              else r) (recipes s) \<rparr>"

definition updateIngredient ::
  "date \<Rightarrow> string \<Rightarrow> string \<Rightarrow> ingredient_partial \<Rightarrow> recipe_store \<Rightarrow> recipe_store" where
  "updateIngredient now recipeId ingredientId p s =
     s\<lparr> recipes := map (\<lambda>r. if recipe_id r = recipeId
                              then r\<lparr> ingredients :=
                                        map (\<lambda>g. if ingredient_id g = ingredientId
                                                   then spread_ingredient g p else g)
                                            (ingredients r),
                                      dateModified := now \<rparr>
                              else r) (recipes s) \<rparr>"

definition removeIngredient :: "date \<Rightarrow> string \<Rightarrow> string \<Rightarrow> recipe_store \<Rightarrow> recipe_store" where
  "removeIngredient now recipeId ingredientId s =
     s\<lparr> recipes := map (\<lambda>r. if recipe_id r = recipeId
                              then r\<lparr> ingredients :=
                                        filter (\<lambda>g. ingredient_id g \<noteq> ingredientId)
                                               (ingredients r),
                                      dateModified := now \<rparr>
                              else r) (recipes s) \<rparr>"

subsection \<open>Instruction management\<close>

text \<open>
  \<^verbatim>\<open>{ id: crypto.randomUUID(), ...instructionData }\<close>: an \<^verbatim>\<open>id\<close> carried by the
  argument replaces the generated one.
\<close>

definition newInstruction :: "string \<Rightarrow> instruction_data \<Rightarrow> instruction" where
  "newInstruction uuid d =
     \<lparr> instruction_id = spread uuid (dn_id d), stepNumber = dn_stepNumber d,
       instruction_text = dn_text d \<rparr>"

definition addInstruction ::
  "date \<Rightarrow> string \<Rightarrow> string \<Rightarrow> instruction_data \<Rightarrow> recipe_store \<Rightarrow> recipe_store" where
  "addInstruction now uuid recipeId d s =
     s\<lparr> recipes := map (\<lambda>r. if recipe_id r = recipeId
                              then r\<lparr> instructions := instructions r @ [newInstruction uuid d],
                                      dateModified := now \<rparr>
                              else r) (recipes s) \<rparr>"

definition updateInstruction ::
  "date \<Rightarrow> string \<Rightarrow> string \<Rightarrow> instruction_partial \<Rightarrow> recipe_store \<Rightarrow> recipe_store" where
  "updateInstruction now recipeId instructionId p s =
     s\<lparr> recipes := map (\<lambda>r. if recipe_id r = recipeId
                              then r\<lparr> instructions :=
                                        map (\<lambda>n. if instruction_id n = instructionId
                                                   then spread_instruction n p else n)
                                            (instructions r),
                                      dateModified := now \<rparr>
                              else r) (recipes s) \<rparr>"

definition removeInstruction :: "date \<Rightarrow> string \<Rightarrow> string \<Rightarrow> recipe_store \<Rightarrow> recipe_store" where
  "removeInstruction now recipeId instructionId s =
     s\<lparr> recipes := map (\<lambda>r. if recipe_id r = recipeId
                              then r\<lparr> instructions :=
                                        filter (\<lambda>n. instruction_id n \<noteq> instructionId)
                                               (instructions r),
                                      dateModified := now \<rparr>
                              else r) (recipes s) \<rparr>"

subsection \<open>UI actions\<close>

definition selectRecipe :: "string option \<Rightarrow> recipe_store \<Rightarrow> recipe_store" where
  "selectRecipe i s = s\<lparr> selectedRecipeId := i, isEditing := False \<rparr>"

definition startEditing :: "recipe_store \<Rightarrow> recipe_store" where
  "startEditing s = s\<lparr> isEditing := True \<rparr>"

definition finishEditing :: "recipe_store \<Rightarrow> recipe_store" where
  "finishEditing s = s\<lparr> isEditing := False \<rparr>"

definition startCreating :: "recipe_store \<Rightarrow> recipe_store" where
  "startCreating s = s\<lparr> isCreating := True, selectedRecipeId := None \<rparr>"

definition cancelCreating :: "recipe_store \<Rightarrow> recipe_store" where
  "cancelCreating s = s\<lparr> isCreating := False \<rparr>"

definition setSearchTerm :: "string \<Rightarrow> recipe_store \<Rightarrow> recipe_store" where
  "setSearchTerm term s = s\<lparr> searchTerm := term \<rparr>"

definition setFilterCategory :: "string option \<Rightarrow> recipe_store \<Rightarrow> recipe_store" where
  "setFilterCategory c s = s\<lparr> filterCategory := c \<rparr>"

subsection \<open>Utility actions\<close>

definition toggleFavorite :: "date \<Rightarrow> string \<Rightarrow> recipe_store \<Rightarrow> recipe_store" where
  "toggleFavorite now i s =
     s\<lparr> recipes := map (\<lambda>r. if recipe_id r = i
                              then r\<lparr> isFavorite := \<not> isFavorite r, dateModified := now \<rparr>
                              else r) (recipes s) \<rparr>"

section \<open>Selectors\<close>

text \<open>
  \<^verbatim>\<open>String.prototype.toLowerCase\<close> is a built-in of the language, which lower-cases
  Unicode. The selector below takes it as its parameter \<open>toLowerCase\<close>, and what is
  proved of the selector is proved for every such function. \<open>ascii_toLowerCase\<close> is the
  built-in on strings of ASCII characters, for the examples.
\<close>

definition lower_char :: "char \<Rightarrow> char" where
  "lower_char c =
     (case map_of (zip ''ABCDEFGHIJKLMNOPQRSTUVWXYZ'' ''abcdefghijklmnopqrstuvwxyz'') c of
        None \<Rightarrow> c
      | Some l \<Rightarrow> l)"

definition ascii_toLowerCase :: "string \<Rightarrow> string" where
  "ascii_toLowerCase s = map lower_char s"

text \<open>
  \<^verbatim>\<open>s.includes(t)\<close> on strings: \<^verbatim>\<open>t\<close> occurs in \<^verbatim>\<open>s\<close> as a contiguous run of
  characters; the empty string occurs in every string.
\<close>

definition string_includes :: "string \<Rightarrow> string \<Rightarrow> bool" where
  "string_includes s t = sublist t s"

text \<open>
  \<^verbatim>\<open>state.selectedRecipeId ? state.recipes.find(...) : null\<close>: the test is the
  truthiness of the id, so \<^verbatim>\<open>null\<close> and the empty string both select nothing;
  \<^verbatim>\<open>find\<close> returns the first match, or \<^verbatim>\<open>undefined\<close>.
\<close>

definition getSelectedRecipe :: "recipe_store \<Rightarrow> recipe option" where
  "getSelectedRecipe s =
     (case selectedRecipeId s of
        None \<Rightarrow> None
      | Some i \<Rightarrow> if i = [] then None else find (\<lambda>r. recipe_id r = i) (recipes s))"

text \<open>
  The two \<^verbatim>\<open>if\<close>s of \<^verbatim>\<open>getFilteredRecipes\<close> test truthiness: the search filter
  runs when \<^verbatim>\<open>searchTerm\<close> is a non-empty string, the category filter when
  \<^verbatim>\<open>filterCategory\<close> is neither \<^verbatim>\<open>null\<close> nor the empty string.
\<close>

definition getFilteredRecipes ::
  "(string \<Rightarrow> string) \<Rightarrow> recipe_store \<Rightarrow> recipe list" where
  "getFilteredRecipes toLowerCase s =
     (let filtered = recipes s;
          filtered =
            (if searchTerm s \<noteq> []
             then (let term = toLowerCase (searchTerm s)
                   in filter (\<lambda>r. string_includes (toLowerCase (title r)) term \<or>
                                    string_includes (toLowerCase (description r)) term) filtered)
             else filtered);
          filtered =
            (case filterCategory s of
               None \<Rightarrow> filtered
             | Some c \<Rightarrow> if c \<noteq> []
                         then filter (\<lambda>r. c \<in> set (category r)) filtered
                         else filtered)
      in filtered)"

section \<open>Sequences of store operations\<close>

text \<open>
  One constructor for each action of \<^verbatim>\<open>RecipeActions\<close>, with the arguments of the
  call. A call is the action together with the clock reading and the UUID that the
  environment hands to it (an action that reads neither ignores them).
\<close>

datatype action =
    CreateRecipe recipe_data
  | UpdateRecipe string recipe_partial
  | DeleteRecipe string
  | AddIngredient string ingredient_data
  | UpdateIngredient string string ingredient_partial
  | RemoveIngredient string string
  | AddInstruction string instruction_data
  | UpdateInstruction string string instruction_partial
  | RemoveInstruction string string
  | SelectRecipe "string option"
  | StartEditing
  | FinishEditing
  | StartCreating
  | CancelCreating
  | SetSearchTerm string
  | SetFilterCategory "string option"
  | ToggleFavorite string

fun dispatch :: "date \<Rightarrow> string \<Rightarrow> action \<Rightarrow> recipe_store \<Rightarrow> recipe_store" where
  "dispatch now uuid (CreateRecipe d) s = createRecipe now uuid d s"
| "dispatch now uuid (UpdateRecipe i p) s = updateRecipe now i p s"
| "dispatch now uuid (DeleteRecipe i) s = deleteRecipe i s"
| "dispatch now uuid (AddIngredient i d) s = addIngredient now uuid i d s"
| "dispatch now uuid (UpdateIngredient i g p) s = updateIngredient now i g p s"
| "dispatch now uuid (RemoveIngredient i g) s = removeIngredient now i g s"
| "dispatch now uuid (AddInstruction i d) s = addInstruction now uuid i d s"
| "dispatch now uuid (UpdateInstruction i n p) s = updateInstruction now i n p s"
| "dispatch now uuid (RemoveInstruction i n) s = removeInstruction now i n s"
| "dispatch now uuid (SelectRecipe i) s = selectRecipe i s"
| "dispatch now uuid StartEditing s = startEditing s"
| "dispatch now uuid FinishEditing s = finishEditing s"
| "dispatch now uuid StartCreating s = startCreating s"
| "dispatch now uuid CancelCreating s = cancelCreating s"
| "dispatch now uuid (SetSearchTerm t) s = setSearchTerm t s"
| "dispatch now uuid (SetFilterCategory c) s = setFilterCategory c s"
| "dispatch now uuid (ToggleFavorite i) s = toggleFavorite now i s"

type_synonym call = "date \<times> string \<times> action"

text \<open>The calls of a list, one after the other, the first of the list first.\<close>

fun run :: "call list \<Rightarrow> recipe_store \<Rightarrow> recipe_store" where
  "run [] s = s"
| "run ((now, uuid, a) # cs) s = run cs (dispatch now uuid a s)"

section \<open>Properties as predicates\<close>

text \<open>
  The recipe id that a per-recipe mutation is called with: \<^verbatim>\<open>updateRecipe\<close>,
  \<^verbatim>\<open>toggleFavorite\<close> and the six ingredient and instruction actions. The other
  actions have none.
\<close>

fun target :: "action \<Rightarrow> string option" where
  "target (UpdateRecipe i p) = Some i"
| "target (ToggleFavorite i) = Some i"
| "target (AddIngredient i d) = Some i"
| "target (UpdateIngredient i g p) = Some i"
| "target (RemoveIngredient i g) = Some i"
| "target (AddInstruction i d) = Some i"
| "target (UpdateInstruction i n p) = Some i"
| "target (RemoveInstruction i n) = Some i"
| "target a = None"

text \<open>
  Between a store and its successor: the collection has the same length, every recipe
  whose id is not \<open>i\<close> is the same at the same position, and the selection and the five
  UI fields are the same.
\<close>

definition others_unchanged :: "string \<Rightarrow> recipe_store \<Rightarrow> recipe_store \<Rightarrow> bool" where
  "others_unchanged i s s' \<longleftrightarrow>
     list_all2 (\<lambda>r r'. recipe_id r \<noteq> i \<longrightarrow> r' = r) (recipes s) (recipes s') \<and>
     selectedRecipeId s' = selectedRecipeId s \<and>
     isEditing s' = isEditing s \<and>
     isCreating s' = isCreating s \<and>
     searchTerm s' = searchTerm s \<and>
     filterCategory s' = filterCategory s \<and>
     isLoading s' = isLoading s"

text \<open>
  Between a store and its successor: every recipe whose id is \<open>i\<close> has, at the same
  position, \<open>dateModified = now\<close>.
\<close>

definition stamped :: "date \<Rightarrow> string \<Rightarrow> recipe_store \<Rightarrow> recipe_store \<Rightarrow> bool" where
  "stamped now i s s' \<longleftrightarrow>
     list_all2 (\<lambda>r r'. recipe_id r = i \<longrightarrow> dateModified r' = now) (recipes s) (recipes s')"

text \<open>The ids of the collection.\<close>

definition recipe_ids :: "recipe_store \<Rightarrow> string set" where
  "recipe_ids s = recipe_id ` set (recipes s)"

text \<open>Every recipe of the collection was modified no earlier than it was created.\<close>

definition dates_ordered :: "recipe_store \<Rightarrow> bool" where
  "dates_ordered s \<longleftrightarrow> list_all (\<lambda>r. dateCreated r \<le> dateModified r) (recipes s)"

text \<open>The selection is \<^verbatim>\<open>null\<close> or the id of a recipe of the collection.\<close>

definition selection_valid :: "recipe_store \<Rightarrow> bool" where
  "selection_valid s \<longleftrightarrow>
     (case selectedRecipeId s of None \<Rightarrow> True | Some i \<Rightarrow> i \<in> recipe_ids s)"

text \<open>
  The store in which every recipe with id \<open>i\<close> has \<open>dateModified = now\<close> and
  nothing else differs.
\<close>

definition restamped :: "date \<Rightarrow> string \<Rightarrow> recipe_store \<Rightarrow> recipe_store" where
  "restamped now i s =
     s\<lparr> recipes := map (\<lambda>r. if recipe_id r = i then r\<lparr> dateModified := now \<rparr> else r)
                         (recipes s) \<rparr>"

text \<open>
  The filtered list as the specification words it: a recipe is kept when (the search term
  is empty, or the lower-cased search term is a substring of the lower-cased title or
  description) and (the filter category is \<^verbatim>\<open>null\<close>, or it is a member of the
  recipe's category list); the order is that of the collection.
\<close>

definition getFilteredRecipes_spec ::
  "(string \<Rightarrow> string) \<Rightarrow> recipe_store \<Rightarrow> recipe list" where
  "getFilteredRecipes_spec toLowerCase s =
     filter (\<lambda>r. (searchTerm s = [] \<or>
                  sublist (toLowerCase (searchTerm s)) (toLowerCase (title r)) \<or>
                  sublist (toLowerCase (searchTerm s)) (toLowerCase (description r))) \<and>
                 (case filterCategory s of None \<Rightarrow> True | Some c \<Rightarrow> c \<in> set (category r)))
       (recipes s)"

text \<open>
  A call that cannot leave the selection dangling: \<^verbatim>\<open>selectRecipe\<close> is given
  \<^verbatim>\<open>null\<close> or the id of a recipe of the collection, and \<^verbatim>\<open>updateRecipe\<close> does not
  give another id to the selected recipe. \<open>selection_safe\<close> asks this of every call of a
  sequence, in the store that the call meets.
\<close>

fun keeps_selection :: "action \<Rightarrow> recipe_store \<Rightarrow> bool" where
  "keeps_selection (SelectRecipe (Some i)) s = (i \<in> recipe_ids s)"
| "keeps_selection (UpdateRecipe i p) s =
     (case p_id p of None \<Rightarrow> True | Some j \<Rightarrow> j = i \<or> selectedRecipeId s \<noteq> Some i)"
| "keeps_selection a s = True"

fun selection_safe :: "call list \<Rightarrow> recipe_store \<Rightarrow> bool" where
  "selection_safe [] s = True"
| "selection_safe ((now, uuid, a) # cs) s =
     (keeps_selection a s \<and> selection_safe cs (dispatch now uuid a s))"

text \<open>
  A creation input that omits the three generated properties, as its type says.
\<close>

definition omits_generated :: "recipe_data \<Rightarrow> bool" where
  "omits_generated d \<longleftrightarrow> d_id d = None \<and> d_dateCreated d = None \<and> d_dateModified d = None"

text \<open>
  A call that stores no \<^verbatim>\<open>dateCreated\<close> later than the reading \<open>now\<close> of its clock
  or than the \<^verbatim>\<open>dateModified\<close> it stores with it: an \<^verbatim>\<open>updateRecipe\<close> partial
  carries no \<^verbatim>\<open>dateCreated\<close> later than \<open>now\<close> (the \<^verbatim>\<open>dateModified\<close> it stores),
  and of a \<^verbatim>\<open>createRecipe\<close> input the \<^verbatim>\<open>dateCreated\<close> that is stored (its own, or
  \<open>now\<close>) is later neither than \<open>now\<close> nor than the \<^verbatim>\<open>dateModified\<close> that is
  stored (its own, or \<open>now\<close>); an input that omits both dates is such a one.
  \<open>clock_ok\<close> asks this of every call of a sequence, and that the clock readings never
  decrease.
\<close>

fun created_not_later :: "call \<Rightarrow> bool" where
  "created_not_later (now, uuid, UpdateRecipe i p) =
     (case p_dateCreated p of None \<Rightarrow> True | Some d \<Rightarrow> d \<le> now)"
| "created_not_later (now, uuid, CreateRecipe d) =
     (spread now (d_dateCreated d) \<le> now \<and>
      spread now (d_dateCreated d) \<le> spread now (d_dateModified d))"
| "created_not_later c = True"

definition clock_ok :: "call list \<Rightarrow> bool" where
  "clock_ok cs \<longleftrightarrow> sorted (map fst cs) \<and> list_all created_not_later cs"

text \<open>Every recipe was created no later than it was modified, and no later than \<open>t\<close>.\<close>

definition dated_until :: "date \<Rightarrow> recipe_store \<Rightarrow> bool" where
  "dated_until t s \<longleftrightarrow>
     (\<forall>r\<in>set (recipes s). dateCreated r \<le> dateModified r \<and> dateCreated r \<le> t)"

section \<open>Example data\<close>

text \<open>The two recipes of the specification's filter scenario.\<close>

definition apple_pie :: recipe_data where
  "apple_pie =
     \<lparr> d_id = None, d_dateCreated = None, d_dateModified = None,
       d_title = ''Apple Pie'', d_description = ''A classic'',
       d_ingredients =
         [\<lparr> ingredient_id = ''g1'', name = ''Flour'', amount = 2, unit = ''cups'',
            preparation = None \<rparr>],
       d_instructions =
         [\<lparr> instruction_id = ''n1'', stepNumber = 1, instruction_text = ''Bake'' \<rparr>],
       d_prepTime = 30, d_cookTime = 60, d_servings = 8, d_category = [''Dessert''],
       d_cuisine = ''American'', d_difficulty = Medium, d_nutrition = None,
       d_imageUrl = None, d_author = ''Ann'', d_notes = None, d_isFavorite = False \<rparr>"

definition beef_stew :: recipe_data where
  "beef_stew =
     \<lparr> d_id = None, d_dateCreated = None, d_dateModified = None,
       d_title = ''Beef Stew'', d_description = ''Slow cooked'',
       d_ingredients = [], d_instructions = [],
       d_prepTime = 20, d_cookTime = 120, d_servings = 4, d_category = [''Dinner''],
       d_cuisine = ''French'', d_difficulty = Easy, d_nutrition = None,
       d_imageUrl = None, d_author = ''Bob'', d_notes = Some ''Better the next day'',
       d_isFavorite = True \<rparr>"

text \<open>The store after creating the first, and after creating both.\<close>

definition store1 :: recipe_store where
  "store1 = createRecipe 1000 ''r1'' apple_pie initial_store"

definition store2 :: recipe_store where
  "store2 = createRecipe 2000 ''r2'' beef_stew store1"

text \<open>A partial with no property, and partials with one.\<close>

definition no_change :: recipe_partial where
  "no_change =
     \<lparr> p_id = None, p_title = None, p_description = None, p_ingredients = None,
       p_instructions = None, p_prepTime = None, p_cookTime = None, p_servings = None,
       p_category = None, p_cuisine = None, p_difficulty = None, p_nutrition = None,
       p_imageUrl = None, p_author = None, p_dateCreated = None, p_dateModified = None,
       p_notes = None, p_isFavorite = None \<rparr>"

definition no_ingredient_change :: ingredient_partial where
  "no_ingredient_change =
     \<lparr> pi_id = None, pi_name = None, pi_amount = None, pi_unit = None,
       pi_preparation = None \<rparr>"

definition no_instruction_change :: instruction_partial where
  "no_instruction_change = \<lparr> pn_id = None, pn_stepNumber = None, pn_text = None \<rparr>"

text \<open>Sequences of calls used as examples.\<close>

definition ordered_calls :: "call list" where
  "ordered_calls =
     [(1000, ''r1'', CreateRecipe apple_pie),
      (2000, [], UpdateRecipe ''r1'' (no_change\<lparr> p_dateCreated := Some 1500 \<rparr>)),
      (3000, [], ToggleFavorite ''r1'')]"

definition selecting_calls :: "call list" where
  "selecting_calls =
     [(1000, ''r1'', CreateRecipe apple_pie),
      (2000, ''r2'', CreateRecipe beef_stew),
      (2500, [], SelectRecipe (Some ''r1'')),
      (3000, [], DeleteRecipe ''r1''),
      (3500, [], SelectRecipe (Some ''r2''))]"

section \<open>Helper lemmas\<close>

lemmas store_defs = createRecipe_def updateRecipe_def deleteRecipe_def addIngredient_def
  updateIngredient_def removeIngredient_def addInstruction_def updateInstruction_def
  removeInstruction_def toggleFavorite_def selectRecipe_def startEditing_def finishEditing_def
  startCreating_def cancelCreating_def setSearchTerm_def setFilterCategory_def

lemmas example_defs = store1_def store2_def apple_pie_def beef_stew_def initial_store_def
  newRecipe_def newIngredient_def newInstruction_def no_change_def no_ingredient_change_def
  no_instruction_change_def

lemma examples_omit [simp]:
  "d_id apple_pie = None" "d_dateCreated apple_pie = None" "d_dateModified apple_pie = None"
  "d_id beef_stew = None" "d_dateCreated beef_stew = None" "d_dateModified beef_stew = None"
  by (simp_all add: apple_pie_def beef_stew_def)

lemma spread_recipe_sel [simp]:
  "recipe_id (spread_recipe r p) = spread (recipe_id r) (p_id p)"
  "dateCreated (spread_recipe r p) = spread (dateCreated r) (p_dateCreated p)"
  by (simp_all add: spread_recipe_def)

lemma count_list_filter_if:
  "count_list (filter P xs) x = (if P x then count_list xs x else 0)"
  by (induction xs) auto

lemma map_if_absent:
  "\<forall>r\<in>set xs. recipe_id r \<noteq> i \<Longrightarrow> map (\<lambda>r. if recipe_id r = i then f r else r) xs = xs"
  by (induction xs) auto

lemma filter_absent:
  "\<forall>r\<in>set xs. recipe_id r \<noteq> i \<Longrightarrow> filter (\<lambda>r. recipe_id r \<noteq> i) xs = xs"
  by (induction xs) auto

lemma map_ingredients_absent:
  "g \<notin> ingredient_id ` set xs \<Longrightarrow> map (\<lambda>x. if ingredient_id x = g then f x else x) xs = xs"
  by (induction xs) auto

lemma filter_ingredients_absent:
  "g \<notin> ingredient_id ` set xs \<Longrightarrow> filter (\<lambda>x. ingredient_id x \<noteq> g) xs = xs"
  by (induction xs) auto

lemma map_instructions_absent:
  "n \<notin> instruction_id ` set xs \<Longrightarrow> map (\<lambda>x. if instruction_id x = n then f x else x) xs = xs"
  by (induction xs) auto

lemma filter_instructions_absent:
  "n \<notin> instruction_id ` set xs \<Longrightarrow> filter (\<lambda>x. instruction_id x \<noteq> n) xs = xs"
  by (induction xs) auto

lemma dispatch_stamped:
  "target a = Some i \<Longrightarrow> stamped now i s (dispatch now uuid a s)"
  by (cases a) (simp_all add: stamped_def store_defs list_all2_map2 list_all2_same)

section \<open>Creating a recipe\<close>

text \<open>
  Claim C1, as the code has it. For every creation input that omits \<^verbatim>\<open>id\<close>,
  \<^verbatim>\<open>dateCreated\<close> and \<^verbatim>\<open>dateModified\<close>, \<^verbatim>\<open>createRecipe\<close> appends exactly one
  new recipe to the collection and leaves the recipes before it as they were; the new
  recipe's id is the one that \<^verbatim>\<open>crypto.randomUUID()\<close> returned, so it is the id of no
  earlier recipe exactly when the generator returned an id that is not in use (the store
  compares no ids); its \<^verbatim>\<open>dateCreated\<close> and its \<^verbatim>\<open>dateModified\<close> are both the time
  of the call; it becomes the selected recipe, and the creating flag is cleared.
\<close>

theorem createRecipe_appends:
  assumes "omits_generated d"
  shows "length (recipes (createRecipe now uuid d s)) = Suc (length (recipes s)) \<and>
         butlast (recipes (createRecipe now uuid d s)) = recipes s \<and>
         recipe_id (last (recipes (createRecipe now uuid d s))) = uuid \<and>
         (recipe_id (last (recipes (createRecipe now uuid d s))) \<notin> recipe_ids s)
           = (uuid \<notin> recipe_ids s) \<and>
         dateCreated (last (recipes (createRecipe now uuid d s))) = now \<and>
         dateModified (last (recipes (createRecipe now uuid d s))) = now \<and>
         selectedRecipeId (createRecipe now uuid d s)
           = Some (recipe_id (last (recipes (createRecipe now uuid d s)))) \<and>
         isCreating (createRecipe now uuid d s) = False"
  using assms by (simp add: createRecipe_def newRecipe_def omits_generated_def)

theorem createRecipe_appends_witness:
  "omits_generated beef_stew \<and>
   length (recipes store1) = 1 \<and>
   length (recipes (createRecipe 2000 ''r2'' beef_stew store1)) = 2 \<and>
   butlast (recipes (createRecipe 2000 ''r2'' beef_stew store1)) = recipes store1 \<and>
   map recipe_id (recipes (createRecipe 2000 ''r2'' beef_stew store1)) = [''r1'', ''r2''] \<and>
   map dateCreated (recipes (createRecipe 2000 ''r2'' beef_stew store1)) = [1000, 2000] \<and>
   map dateModified (recipes (createRecipe 2000 ''r2'' beef_stew store1)) = [1000, 2000] \<and>
   selectedRecipeId (createRecipe 2000 ''r2'' beef_stew store1) = Some ''r2'' \<and>
   isCreating (createRecipe 2000 ''r2'' beef_stew store1) = False"
proof -
  have omits: "omits_generated beef_stew"
    by (simp add: omits_generated_def beef_stew_def)
  have "omits_generated apple_pie"
    by (simp add: omits_generated_def apple_pie_def)
  then have "length (recipes store1) = 1 \<and> map recipe_id (recipes store1) = [''r1''] \<and>
      map dateCreated (recipes store1) = [1000] \<and> map dateModified (recipes store1) = [1000]"
    by (simp add: store1_def createRecipe_def newRecipe_def initial_store_def
        omits_generated_def)
  with omits createRecipe_appends [OF omits, of 2000 "''r2''" store1]
  show ?thesis
    by (simp add: createRecipe_def newRecipe_def omits_generated_def)
qed

text \<open>
  The claim as stated fails when the generator returns an id that is in use: the store
  appends the recipe all the same, and the collection then holds the id \<^verbatim>\<open>r1\<close> twice.
\<close>

theorem createRecipe_counterexample:
  "omits_generated beef_stew \<and>
   map recipe_id (recipes store1) = [''r1''] \<and>
   map recipe_id (recipes (createRecipe 2000 ''r1'' beef_stew store1)) = [''r1'', ''r1''] \<and>
   recipe_id (last (recipes (createRecipe 2000 ''r1'' beef_stew store1)))
     \<in> recipe_ids store1"
  by (simp add: omits_generated_def recipe_ids_def store1_def createRecipe_def newRecipe_def
      initial_store_def beef_stew_def apple_pie_def)

section \<open>Deleting a recipe\<close>

text \<open>
  Claim C7. \<^verbatim>\<open>deleteRecipe(id)\<close> removes every recipe whose id is the given one and no
  other: no recipe with that id is left, what is left is a subsequence of the collection,
  and every recipe with another id occurs as often as before. If the selection was that id
  it becomes \<^verbatim>\<open>null\<close>, and otherwise it is unchanged.
\<close>

theorem deleteRecipe_removes:
  "i \<notin> recipe_ids (deleteRecipe i s) \<and>
   subseq (recipes (deleteRecipe i s)) (recipes s) \<and>
   (\<forall>r. recipe_id r \<noteq> i \<longrightarrow>
        count_list (recipes (deleteRecipe i s)) r = count_list (recipes s) r) \<and>
   (selectedRecipeId s = Some i \<longrightarrow> selectedRecipeId (deleteRecipe i s) = None) \<and>
   (selectedRecipeId s \<noteq> Some i \<longrightarrow>
      selectedRecipeId (deleteRecipe i s) = selectedRecipeId s)"
  by (auto simp: deleteRecipe_def recipe_ids_def count_list_filter_if)

theorem deleteRecipe_removes_witness:
  "selectedRecipeId store2 = Some ''r2'' \<and>
   selectedRecipeId (deleteRecipe ''r2'' store2) = None \<and>
   recipes (deleteRecipe ''r2'' store2) = [newRecipe 1000 ''r1'' apple_pie] \<and>
   selectedRecipeId store2 \<noteq> Some ''r1'' \<and>
   selectedRecipeId (deleteRecipe ''r1'' store2) = Some ''r2'' \<and>
   recipes (deleteRecipe ''r1'' store2) = [newRecipe 2000 ''r2'' beef_stew]"
  using deleteRecipe_removes [of "''r2''" store2] deleteRecipe_removes [of "''r1''" store2]
  by (simp add: store2_def store1_def createRecipe_def deleteRecipe_def newRecipe_def
      initial_store_def)

section \<open>Toggling the favourite flag\<close>

text \<open>
  Claim C8. \<^verbatim>\<open>toggleFavorite\<close> is its own inverse: after two calls with the same id
  (at the times \<open>t1\<close> and \<open>t2\<close>) every recipe with that id is the original one in
  every field, \<^verbatim>\<open>isFavorite\<close> included, except that \<^verbatim>\<open>dateModified\<close> is \<open>t2\<close>; every
  other recipe and the rest of the state are the original ones.
\<close>

theorem toggleFavorite_twice:
  "toggleFavorite t2 i (toggleFavorite t1 i s) =
     s\<lparr> recipes := map (\<lambda>r. if recipe_id r = i then r\<lparr> dateModified := t2 \<rparr> else r)
                         (recipes s) \<rparr>"
  by (simp add: toggleFavorite_def comp_def cong: map_cong)

theorem toggleFavorite_twice_witness:
  "map isFavorite (recipes store2) = [False, True] \<and>
   map isFavorite (recipes (toggleFavorite 3000 ''r2'' store2)) = [False, False] \<and>
   map isFavorite (recipes (toggleFavorite 4000 ''r2'' (toggleFavorite 3000 ''r2'' store2)))
     = [False, True] \<and>
   toggleFavorite 4000 ''r2'' (toggleFavorite 3000 ''r2'' store2) =
     store2\<lparr> recipes := [newRecipe 1000 ''r1'' apple_pie,
                          (newRecipe 2000 ''r2'' beef_stew)\<lparr> dateModified := 4000 \<rparr>] \<rparr>"
  using toggleFavorite_twice [of 4000 "''r2''" 3000 store2]
  by (simp add: store2_def store1_def createRecipe_def toggleFavorite_def newRecipe_def
      initial_store_def beef_stew_def apple_pie_def)

section \<open>The modification date after an update\<close>

text \<open>
  Claim C9. After \<^verbatim>\<open>updateRecipe(id, partial)\<close> every recipe that had the given id has
  \<^verbatim>\<open>dateModified\<close> equal to the time of the call, whatever the partial holds: a
  \<^verbatim>\<open>dateModified\<close> supplied in the partial is never stored, because the refresh comes
  after the merge.
\<close>

theorem updateRecipe_dateModified:
  "stamped now i s (updateRecipe now i p s) \<and>
   stamped now i s (updateRecipe now i (p\<lparr> p_dateModified := Some d \<rparr>) s)"
  by (simp add: stamped_def updateRecipe_def list_all2_map2 list_all2_same)

theorem updateRecipe_dateModified_witness:
  "map recipe_id (recipes store2) = [''r1'', ''r2''] \<and>
   map dateModified
     (recipes (updateRecipe 3000 ''r1'' (no_change\<lparr> p_dateModified := Some 5 \<rparr>) store2))
     = [3000, 2000]"
  using updateRecipe_dateModified [of 3000 "''r1''" store2 no_change 5]
  by (simp add: store2_def store1_def createRecipe_def updateRecipe_def newRecipe_def
      initial_store_def no_change_def spread_recipe_def)

section \<open>The frame of the per-recipe mutations\<close>

text \<open>
  Claim C10. Each of \<^verbatim>\<open>updateRecipe\<close>, \<^verbatim>\<open>toggleFavorite\<close>, \<^verbatim>\<open>addIngredient\<close>,
  \<^verbatim>\<open>updateIngredient\<close>, \<^verbatim>\<open>removeIngredient\<close>, \<^verbatim>\<open>addInstruction\<close>,
  \<^verbatim>\<open>updateInstruction\<close> and \<^verbatim>\<open>removeInstruction\<close> leaves every recipe whose id is
  not the given recipe id unchanged, and leaves \<^verbatim>\<open>selectedRecipeId\<close>, \<^verbatim>\<open>isEditing\<close>,
  \<^verbatim>\<open>isCreating\<close>, \<^verbatim>\<open>searchTerm\<close>, \<^verbatim>\<open>filterCategory\<close> and \<^verbatim>\<open>isLoading\<close>
  unchanged.
\<close>

theorem mutation_frame:
  "others_unchanged i s (updateRecipe now i p s) \<and>
   others_unchanged i s (toggleFavorite now i s) \<and>
   others_unchanged i s (addIngredient now uuid i gd s) \<and>
   others_unchanged i s (updateIngredient now i g gp s) \<and>
   others_unchanged i s (removeIngredient now i g s) \<and>
   others_unchanged i s (addInstruction now uuid i nd s) \<and>
   others_unchanged i s (updateInstruction now i n np s) \<and>
   others_unchanged i s (removeInstruction now i n s)"
  by (simp add: others_unchanged_def store_defs list_all2_map2 list_all2_same)

theorem mutation_frame_witness:
  "map recipe_id (recipes store2) = [''r1'', ''r2''] \<and>
   tl (recipes (updateRecipe 3000 ''r1'' (no_change\<lparr> p_title := Some ''Pie'' \<rparr>) store2))
     = tl (recipes store2) \<and>
   tl (recipes (removeIngredient 3000 ''r1'' ''g1'' store2)) = tl (recipes store2) \<and>
   selectedRecipeId (removeIngredient 3000 ''r1'' ''g1'' store2) = Some ''r2'' \<and>
   others_unchanged ''r1'' store2 (removeIngredient 3000 ''r1'' ''g1'' store2)"
  using mutation_frame [of "''r1''" store2 3000 "no_change\<lparr> p_title := Some ''Pie'' \<rparr>"
      "[]" "\<lparr> di_id = None, di_name = [], di_amount = 0, di_unit = [], di_preparation = None \<rparr>"
      "''g1''" no_ingredient_change "\<lparr> dn_id = None, dn_stepNumber = 1, dn_text = [] \<rparr>" "[]"
      no_instruction_change]
  by (simp add: store2_def store1_def createRecipe_def updateRecipe_def removeIngredient_def
      newRecipe_def initial_store_def others_unchanged_def)

section \<open>Ingredient and instruction ids that are not found\<close>

text \<open>
  Claim C2, as the code has it. When no recipe with id \<open>i\<close> holds an ingredient with id
  \<open>g\<close> (an instruction with id \<open>n\<close>), each of \<^verbatim>\<open>updateIngredient\<close>,
  \<^verbatim>\<open>removeIngredient\<close>, \<^verbatim>\<open>updateInstruction\<close> and \<^verbatim>\<open>removeInstruction\<close> leaves
  the ingredient and instruction lists and every other field of the recipes with id \<open>i\<close>
  as they were, except \<^verbatim>\<open>dateModified\<close>, which becomes the time of the call; every
  other recipe and the rest of the state are unchanged.
\<close>

theorem absent_item_restamps:
  assumes g: "\<forall>r\<in>set (recipes s). recipe_id r = i \<longrightarrow> g \<notin> ingredient_id ` set (ingredients r)"
      and n: "\<forall>r\<in>set (recipes s). recipe_id r = i \<longrightarrow> n \<notin> instruction_id ` set (instructions r)"
  shows "updateIngredient now i g gp s = restamped now i s \<and>
         removeIngredient now i g s = restamped now i s \<and>
         updateInstruction now i n np s = restamped now i s \<and>
         removeInstruction now i n s = restamped now i s"
  using g n
  by (auto simp: store_defs restamped_def map_ingredients_absent filter_ingredients_absent
      map_instructions_absent filter_instructions_absent)

theorem absent_item_restamps_witness:
  "map recipe_id (recipes store1) = [''r1''] \<and>
   map ingredient_id (concat (map ingredients (recipes store1))) = [''g1''] \<and>
   map instruction_id (concat (map instructions (recipes store1))) = [''n1''] \<and>
   updateIngredient 5000 ''r1'' ''zz'' no_ingredient_change store1 =
     store1\<lparr> recipes := [(newRecipe 1000 ''r1'' apple_pie)\<lparr> dateModified := 5000 \<rparr>] \<rparr> \<and>
   removeInstruction 5000 ''r1'' ''zz'' store1 =
     store1\<lparr> recipes := [(newRecipe 1000 ''r1'' apple_pie)\<lparr> dateModified := 5000 \<rparr>] \<rparr>"
proof -
  have g: "\<forall>r\<in>set (recipes store1).
      recipe_id r = ''r1'' \<longrightarrow> ''zz'' \<notin> ingredient_id ` set (ingredients r)"
    by (simp add: store1_def createRecipe_def newRecipe_def initial_store_def apple_pie_def)
  have n: "\<forall>r\<in>set (recipes store1).
      recipe_id r = ''r1'' \<longrightarrow> ''zz'' \<notin> instruction_id ` set (instructions r)"
    by (simp add: store1_def createRecipe_def newRecipe_def initial_store_def apple_pie_def)
  have "restamped 5000 ''r1'' store1 =
      store1\<lparr> recipes := [(newRecipe 1000 ''r1'' apple_pie)\<lparr> dateModified := 5000 \<rparr>] \<rparr>"
    by (simp add: restamped_def store1_def createRecipe_def newRecipe_def initial_store_def)
  moreover have "map recipe_id (recipes store1) = [''r1''] \<and>
      map ingredient_id (concat (map ingredients (recipes store1))) = [''g1''] \<and>
      map instruction_id (concat (map instructions (recipes store1))) = [''n1'']"
    by (simp add: store1_def createRecipe_def newRecipe_def initial_store_def apple_pie_def)
  ultimately show ?thesis
    using absent_item_restamps [OF g n, of 5000 no_ingredient_change no_instruction_change]
    by simp
qed

text \<open>
  The claim as stated fails: the apple pie has no ingredient and no instruction with id
  \<^verbatim>\<open>zz\<close>, and each of the four actions changes the store, moving the recipe's
  \<^verbatim>\<open>dateModified\<close> from 1000 to the 5000 of the call.
\<close>

theorem absent_item_counterexample:
  "''r1'' \<in> recipe_ids store1 \<and>
   ''zz'' \<notin> ingredient_id ` set (concat (map ingredients (recipes store1))) \<and>
   ''zz'' \<notin> instruction_id ` set (concat (map instructions (recipes store1))) \<and>
   map dateModified (recipes store1) = [1000] \<and>
   map dateModified (recipes (updateIngredient 5000 ''r1'' ''zz'' no_ingredient_change store1))
     = [5000] \<and>
   updateIngredient 5000 ''r1'' ''zz'' no_ingredient_change store1 \<noteq> store1 \<and>
   removeIngredient 5000 ''r1'' ''zz'' store1 \<noteq> store1 \<and>
   updateInstruction 5000 ''r1'' ''zz'' no_instruction_change store1 \<noteq> store1 \<and>
   removeInstruction 5000 ''r1'' ''zz'' store1 \<noteq> store1"
  by (simp add: recipe_ids_def store_defs store1_def newRecipe_def initial_store_def
      apple_pie_def)

section \<open>Recipe ids that are not found\<close>

text \<open>
  Claim C5, as the code has it. For an id that no recipe of the collection has,
  \<^verbatim>\<open>updateRecipe\<close>, \<^verbatim>\<open>toggleFavorite\<close> and the six ingredient and instruction
  actions called with it as the recipe id leave the whole state unchanged;
  \<^verbatim>\<open>deleteRecipe\<close> leaves the collection and the UI fields unchanged, and the selection
  too unless the selection is that very id, which it sets to \<^verbatim>\<open>null\<close>. Every action is a
  function from stores to stores with no failing branch.
\<close>

theorem absent_id_no_op:
  assumes "i \<notin> recipe_ids s"
  shows "updateRecipe now i p s = s \<and>
         toggleFavorite now i s = s \<and>
         addIngredient now uuid i gd s = s \<and>
         updateIngredient now i g gp s = s \<and>
         removeIngredient now i g s = s \<and>
         addInstruction now uuid i nd s = s \<and>
         updateInstruction now i n np s = s \<and>
         removeInstruction now i n s = s \<and>
         deleteRecipe i s =
           s\<lparr> selectedRecipeId :=
                (if selectedRecipeId s = Some i then None else selectedRecipeId s) \<rparr> \<and>
         (selectedRecipeId s \<noteq> Some i \<longrightarrow> deleteRecipe i s = s)"
proof -
  from assms have absent: "\<forall>r\<in>set (recipes s). recipe_id r \<noteq> i"
    by (auto simp: recipe_ids_def)
  show ?thesis
    by (simp add: store_defs map_if_absent [OF absent] filter_absent [OF absent])
qed

theorem absent_id_no_op_witness:
  "''zz'' \<notin> recipe_ids store2 \<and>
   selectedRecipeId store2 \<noteq> Some ''zz'' \<and>
   updateRecipe 3000 ''zz'' (no_change\<lparr> p_title := Some ''Pie'' \<rparr>) store2 = store2 \<and>
   toggleFavorite 3000 ''zz'' store2 = store2 \<and>
   removeIngredient 3000 ''zz'' ''g1'' store2 = store2 \<and>
   deleteRecipe ''zz'' store2 = store2"
proof -
  have absent: "''zz'' \<notin> recipe_ids store2"
    by (simp add: recipe_ids_def store2_def store1_def createRecipe_def newRecipe_def
        initial_store_def)
  have sel: "selectedRecipeId store2 \<noteq> Some ''zz''"
    by (simp add: store2_def createRecipe_def newRecipe_def)
  from absent sel
    absent_id_no_op [OF absent, of 3000 "no_change\<lparr> p_title := Some ''Pie'' \<rparr>" _ _ "''g1''"]
  show ?thesis by simp
qed

text \<open>
  The claim as stated fails for \<^verbatim>\<open>deleteRecipe\<close>: after \<^verbatim>\<open>selectRecipe("ghost")\<close> on
  the initial store no recipe has the id \<^verbatim>\<open>ghost\<close>, and \<^verbatim>\<open>deleteRecipe("ghost")\<close>
  changes the selection from \<^verbatim>\<open>ghost\<close> to \<^verbatim>\<open>null\<close>.
\<close>

theorem absent_id_counterexample:
  "''ghost'' \<notin> recipe_ids (selectRecipe (Some ''ghost'') initial_store) \<and>
   selectedRecipeId (selectRecipe (Some ''ghost'') initial_store) = Some ''ghost'' \<and>
   selectedRecipeId (deleteRecipe ''ghost'' (selectRecipe (Some ''ghost'') initial_store))
     = None \<and>
   deleteRecipe ''ghost'' (selectRecipe (Some ''ghost'') initial_store)
     \<noteq> selectRecipe (Some ''ghost'') initial_store"
  by (simp add: recipe_ids_def selectRecipe_def deleteRecipe_def initial_store_def)

section \<open>The filtered list\<close>

text \<open>
  Claim C6, as the code has it. Whatever function \<open>toLowerCase\<close> lower-cases the
  strings, \<^verbatim>\<open>getFilteredRecipes\<close> returns exactly the recipes such that (the search
  term is empty, or the lower-cased search term is a substring of the lower-cased title or
  description) and (the filter category is \<^verbatim>\<open>null\<close> or the empty string, or it is a
  member of the recipe's category list), in the order of the collection; with an empty
  search term and a \<^verbatim>\<open>null\<close> filter category it returns the whole collection in its
  order.
\<close>

theorem getFilteredRecipes_filter:
  "getFilteredRecipes toLowerCase s =
     filter (\<lambda>r. (searchTerm s = [] \<or>
                  sublist (toLowerCase (searchTerm s)) (toLowerCase (title r)) \<or>
                  sublist (toLowerCase (searchTerm s)) (toLowerCase (description r))) \<and>
                 (case filterCategory s of
                    None \<Rightarrow> True
                  | Some c \<Rightarrow> c = [] \<or> c \<in> set (category r)))
       (recipes s) \<and>
   (searchTerm s = [] \<and> filterCategory s = None \<longrightarrow>
      getFilteredRecipes toLowerCase s = recipes s)"
  by (auto simp: getFilteredRecipes_def string_includes_def Let_def split: option.splits
      intro!: filter_cong)

text \<open>
  The scenario of the specification: searching \<^verbatim>\<open>pie\<close> returns only the apple pie,
  filtering on \<^verbatim>\<open>Dinner\<close> only the beef stew, both together nothing, and neither the
  whole collection.
\<close>

theorem getFilteredRecipes_filter_witness:
  "searchTerm store2 = [] \<and> filterCategory store2 = None \<and>
   getFilteredRecipes ascii_toLowerCase store2 = recipes store2 \<and>
   map title (getFilteredRecipes ascii_toLowerCase store2)
     = [''Apple Pie'', ''Beef Stew''] \<and>
   map title (getFilteredRecipes ascii_toLowerCase (setSearchTerm ''pie'' store2))
     = [''Apple Pie''] \<and>
   map title (getFilteredRecipes ascii_toLowerCase
       (setFilterCategory (Some ''Dinner'') store2))
     = [''Beef Stew''] \<and>
   getFilteredRecipes ascii_toLowerCase
       (setFilterCategory (Some ''Dinner'') (setSearchTerm ''pie'' store2))
     = []"
  using getFilteredRecipes_filter [of ascii_toLowerCase store2]
    getFilteredRecipes_filter [of ascii_toLowerCase "setSearchTerm ''pie'' store2"]
    getFilteredRecipes_filter
      [of ascii_toLowerCase "setFilterCategory (Some ''Dinner'') store2"]
    getFilteredRecipes_filter
      [of ascii_toLowerCase "setFilterCategory (Some ''Dinner'') (setSearchTerm ''pie'' store2)"]
  by (simp add: store2_def store1_def createRecipe_def newRecipe_def initial_store_def
      apple_pie_def beef_stew_def setSearchTerm_def setFilterCategory_def ascii_toLowerCase_def
      lower_char_def sublist_code)

text \<open>
  The claim as stated fails when the filter category is the empty string: it is not
  \<^verbatim>\<open>null\<close> and no category of the apple pie is empty, so the specification's list is
  empty, while the code skips the category filter and returns the apple pie.
\<close>

theorem getFilteredRecipes_counterexample:
  "filterCategory (setFilterCategory (Some []) store1) = Some [] \<and>
   map title (getFilteredRecipes ascii_toLowerCase (setFilterCategory (Some []) store1))
     = [''Apple Pie''] \<and>
   getFilteredRecipes_spec ascii_toLowerCase (setFilterCategory (Some []) store1) = [] \<and>
   getFilteredRecipes ascii_toLowerCase (setFilterCategory (Some []) store1)
     \<noteq> getFilteredRecipes_spec ascii_toLowerCase (setFilterCategory (Some []) store1)"
  by (simp add: getFilteredRecipes_def getFilteredRecipes_spec_def setFilterCategory_def
      store1_def createRecipe_def newRecipe_def initial_store_def apple_pie_def)

section \<open>The selection along sequences of calls\<close>

lemma id_kept:
  "k \<in> recipe_id ` set xs \<Longrightarrow> (\<And>r. recipe_id r = k \<Longrightarrow> recipe_id (f r) = k)
     \<Longrightarrow> k \<in> recipe_id ` set (map f xs)"
  by force

lemma ids_map_if:
  "(\<And>r. recipe_id (f r) = recipe_id r)
     \<Longrightarrow> recipe_id ` set (map (\<lambda>r. if recipe_id r = i then f r else r) xs) = recipe_id ` set xs"
  by (induction xs) auto

lemma updateRecipe_selection_valid:
  assumes "selection_valid s" and "keeps_selection (UpdateRecipe i p) s"
  shows "selection_valid (updateRecipe now i p s)"
proof (cases "selectedRecipeId s")
  case None
  then show ?thesis by (simp add: selection_valid_def updateRecipe_def)
next
  case (Some k)
  with assms(1) have k: "k \<in> recipe_id ` set (recipes s)"
    by (simp add: selection_valid_def recipe_ids_def)
  have "k \<in> recipe_id ` set (map (\<lambda>r. if recipe_id r = i
            then (spread_recipe r p)\<lparr> dateModified := now \<rparr> else r) (recipes s))"
    using k
  proof (rule id_kept)
    fix r :: recipe assume "recipe_id r = k"
    with assms(2) Some
    show "recipe_id (if recipe_id r = i then (spread_recipe r p)\<lparr> dateModified := now \<rparr> else r) = k"
      by (cases "p_id p") auto
  qed
  with Some show ?thesis by (simp add: selection_valid_def recipe_ids_def updateRecipe_def)
qed

lemma dispatch_selection_valid:
  assumes "selection_valid s" and "keeps_selection a s"
  shows "selection_valid (dispatch now uuid a s)"
proof (cases a)
  case (UpdateRecipe i p)
  with assms show ?thesis by (simp add: updateRecipe_selection_valid)
next
  case (SelectRecipe x)
  with assms show ?thesis
    by (cases x) (auto simp: selection_valid_def recipe_ids_def selectRecipe_def)
next
  case (DeleteRecipe i)
  with assms show ?thesis
    by (auto simp: selection_valid_def recipe_ids_def deleteRecipe_def image_iff
        split: option.splits)
qed (use assms in \<open>auto simp del: set_map simp: selection_valid_def recipe_ids_def store_defs
        newRecipe_def ids_map_if split: option.splits\<close>)

lemma run_selection_valid:
  "selection_valid s \<Longrightarrow> selection_safe cs s \<Longrightarrow> selection_valid (run cs s)"
proof (induction cs arbitrary: s)
  case Nil
  then show ?case by simp
next
  case (Cons c cs)
  obtain now uuid a where c: "c = (now, uuid, a)" by (cases c)
  from Cons.prems have "selection_valid (dispatch now uuid a s)"
    by (simp add: c dispatch_selection_valid)
  with Cons show ?case by (simp add: c)
qed

text \<open>
  Claim C4, as the code has it. In every state reached from the initial state by a
  sequence of store operations in which \<^verbatim>\<open>selectRecipe\<close> is called only with
  \<^verbatim>\<open>null\<close> or the id of a recipe of the collection, and \<^verbatim>\<open>updateRecipe\<close> gives no
  other id to the selected recipe, \<^verbatim>\<open>selectedRecipeId\<close> is \<^verbatim>\<open>null\<close> or the id of a
  recipe of the collection. (\<^verbatim>\<open>selectRecipe\<close> itself stores whatever id it is given.)
\<close>

theorem selection_never_dangling:
  "selection_safe cs initial_store \<Longrightarrow> selection_valid (run cs initial_store)"
  by (rule run_selection_valid) (simp_all add: selection_valid_def initial_store_def)

theorem selection_never_dangling_witness:
  "selection_safe selecting_calls initial_store \<and>
   selection_valid (run selecting_calls initial_store) \<and>
   selectedRecipeId (run selecting_calls initial_store) = Some ''r2'' \<and>
   map recipe_id (recipes (run selecting_calls initial_store)) = [''r2'']"
proof -
  have safe: "selection_safe selecting_calls initial_store"
    by (simp add: selecting_calls_def recipe_ids_def store_defs newRecipe_def
        initial_store_def)
  have "selectedRecipeId (run selecting_calls initial_store) = Some ''r2'' \<and>
        map recipe_id (recipes (run selecting_calls initial_store)) = [''r2'']"
    by (simp add: selecting_calls_def store_defs newRecipe_def initial_store_def)
  with safe selection_never_dangling [OF safe] show ?thesis by simp
qed

text \<open>
  The claim as stated fails: \<^verbatim>\<open>selectRecipe("ghost")\<close> on the initial store selects an
  id that no recipe has.
\<close>

theorem selection_counterexample:
  "recipes (run [(0, [], SelectRecipe (Some ''ghost''))] initial_store) = [] \<and>
   selectedRecipeId (run [(0, [], SelectRecipe (Some ''ghost''))] initial_store)
     = Some ''ghost'' \<and>
   \<not> selection_valid (run [(0, [], SelectRecipe (Some ''ghost''))] initial_store)"
  by (simp add: selection_valid_def recipe_ids_def selectRecipe_def initial_store_def)

section \<open>The two dates along sequences of calls\<close>

lemma dispatch_dated_until:
  assumes "dated_until now s" and "created_not_later (now, uuid, a)"
  shows "dated_until now (dispatch now uuid a s)"
proof (cases a)
  case (UpdateRecipe i p)
  with assms show ?thesis
    by (cases "p_dateCreated p") (auto simp: dated_until_def updateRecipe_def)
qed (use assms in \<open>auto simp: dated_until_def store_defs newRecipe_def\<close>)

lemma dated_until_mono: "dated_until t s \<Longrightarrow> t \<le> t' \<Longrightarrow> dated_until t' s"
  by (fastforce simp: dated_until_def)

lemma run_dated_until:
  "dated_until t s \<Longrightarrow> sorted (t # map fst cs) \<Longrightarrow> list_all created_not_later cs
     \<Longrightarrow> dated_until (last (t # map fst cs)) (run cs s)"
proof (induction cs arbitrary: s t)
  case Nil
  then show ?case by simp
next
  case (Cons c cs)
  obtain now uuid a where c: "c = (now, uuid, a)" by (cases c)
  from Cons.prems have "t \<le> now" by (simp add: c)
  with Cons.prems(1) have "dated_until now s" by (rule dated_until_mono)
  moreover from Cons.prems have "created_not_later (now, uuid, a)" by (simp add: c)
  ultimately have "dated_until now (dispatch now uuid a s)" by (rule dispatch_dated_until)
  moreover from Cons.prems have "sorted (now # map fst cs)" "list_all created_not_later cs"
    by (simp_all add: c)
  ultimately have "dated_until (last (now # map fst cs)) (run cs (dispatch now uuid a s))"
    by (rule Cons.IH)
  then show ?case by (simp add: c)
qed

lemma run_dates_ordered: "clock_ok cs \<Longrightarrow> dates_ordered (run cs initial_store)"
proof (cases cs)
  case Nil
  then show ?thesis by (simp add: dates_ordered_def initial_store_def)
next
  case (Cons c cs')
  assume ok: "clock_ok cs"
  have "dated_until (fst c) initial_store" by (simp add: dated_until_def initial_store_def)
  moreover from ok have "sorted (fst c # map fst cs)" "list_all created_not_later cs"
    by (simp_all add: clock_ok_def Cons)
  ultimately have "dated_until (last (fst c # map fst cs)) (run cs initial_store)"
    by (rule run_dated_until)
  then show ?thesis by (auto simp: dated_until_def dates_ordered_def list_all_iff)
qed

text \<open>
  Claim C3, as the code has it. In every state reached from the initial state by a
  sequence of store operations whose clock readings never decrease, whose
  \<^verbatim>\<open>updateRecipe\<close> partials carry no \<^verbatim>\<open>dateCreated\<close> later than the time of their
  call, and whose \<^verbatim>\<open>createRecipe\<close> inputs either omit both dates or store a
  \<^verbatim>\<open>dateCreated\<close> later neither than the time of their call nor than the
  \<^verbatim>\<open>dateModified\<close> stored with it, every recipe has
  \<^verbatim>\<open>dateModified >= dateCreated\<close>; and each of
  \<^verbatim>\<open>updateRecipe\<close>, \<^verbatim>\<open>toggleFavorite\<close> and the six ingredient and instruction actions
  sets the \<^verbatim>\<open>dateModified\<close> of every recipe with the given id to the time of the call.
\<close>

theorem dates_ordered_reachable:
  "(clock_ok cs \<longrightarrow> dates_ordered (run cs initial_store)) \<and>
   (target a = Some i \<longrightarrow> stamped now i s (dispatch now uuid a s))"
  by (simp add: run_dates_ordered dispatch_stamped)

theorem dates_ordered_reachable_witness:
  "clock_ok ordered_calls \<and>
   dates_ordered (run ordered_calls initial_store) \<and>
   map dateCreated (recipes (run ordered_calls initial_store)) = [1500] \<and>
   map dateModified (recipes (run ordered_calls initial_store)) = [3000] \<and>
   target (RemoveIngredient ''r1'' ''g1'') = Some ''r1'' \<and>
   stamped 4000 ''r1'' store2 (dispatch 4000 [] (RemoveIngredient ''r1'' ''g1'') store2) \<and>
   map dateModified (recipes (dispatch 4000 [] (RemoveIngredient ''r1'' ''g1'') store2))
     = [4000, 2000]"
proof -
  have ok: "clock_ok ordered_calls"
    by (simp add: clock_ok_def ordered_calls_def no_change_def)
  have t: "target (RemoveIngredient ''r1'' ''g1'') = Some ''r1''"
    by simp
  have "map dateCreated (recipes (run ordered_calls initial_store)) = [1500] \<and>
        map dateModified (recipes (run ordered_calls initial_store)) = [3000] \<and>
        map dateModified (recipes (dispatch 4000 [] (RemoveIngredient ''r1'' ''g1'') store2))
          = [4000, 2000]"
    by (simp add: ordered_calls_def store_defs newRecipe_def initial_store_def no_change_def
        spread_recipe_def store2_def store1_def)
  with ok t
    dates_ordered_reachable [of ordered_calls "RemoveIngredient ''r1'' ''g1''" "''r1''"
      4000 store2 "[]"]
  show ?thesis by simp
qed

text \<open>
  The claim as stated fails. A recipe created at 1000 and given, at 2000, a partial with
  \<^verbatim>\<open>dateCreated\<close> 5000 ends with \<^verbatim>\<open>dateCreated\<close> 5000 and \<^verbatim>\<open>dateModified\<close> 2000.
  So does any mutation whose clock reading is earlier than the creation, and so does a
  \<^verbatim>\<open>createRecipe\<close> whose input carries a \<^verbatim>\<open>dateCreated\<close> 7 and a
  \<^verbatim>\<open>dateModified\<close> 3, which the spread stores in place of the generated ones: the store
  reads the wall clock and compares no dates.
\<close>

theorem dates_ordered_counterexample:
  "map dateCreated (recipes (run [(1000, ''r1'', CreateRecipe apple_pie),
        (2000, [], UpdateRecipe ''r1'' (no_change\<lparr> p_dateCreated := Some 5000 \<rparr>))]
        initial_store)) = [5000] \<and>
   map dateModified (recipes (run [(1000, ''r1'', CreateRecipe apple_pie),
        (2000, [], UpdateRecipe ''r1'' (no_change\<lparr> p_dateCreated := Some 5000 \<rparr>))]
        initial_store)) = [2000] \<and>
   \<not> dates_ordered (run [(1000, ''r1'', CreateRecipe apple_pie),
        (2000, [], UpdateRecipe ''r1'' (no_change\<lparr> p_dateCreated := Some 5000 \<rparr>))]
        initial_store) \<and>
   \<not> dates_ordered (run [(2000, ''r1'', CreateRecipe apple_pie),
        (1000, [], ToggleFavorite ''r1'')] initial_store) \<and>
   \<not> dates_ordered (run [(1000, ''r1'',
        CreateRecipe (apple_pie\<lparr> d_dateCreated := Some 7, d_dateModified := Some 3 \<rparr>))]
        initial_store)"
  by (simp add: dates_ordered_def store_defs newRecipe_def initial_store_def no_change_def
      spread_recipe_def apple_pie_def)

end
